theory Spec2Isabelle
  imports Complex_Main "HOL-Library.Multiset"
begin

section \<open>Python values\<close>

text \<open>
  A Python \<open>str\<close> is a sequence of Unicode code points, so \<open>len\<close> counts code points
  and \<open>in\<close> searches for a contiguous run of them. A string is modelled as the list of
  its code points; \<open>lit\<close> turns an ASCII literal into that form, and the few non-ASCII
  characters of the source are written by their code point.
\<close>

type_synonym pystr = "nat list"

type_synonym bytes = "nat list"

definition lit :: "string \<Rightarrow> pystr" where
  "lit s = map of_char s"

definition nl :: pystr where
  "nl = [10]"

text \<open>An exception object: its class name and \<open>str(e)\<close>.\<close>

datatype exn = Exn (exn_class: pystr) (exn_str: pystr)

text \<open>What \<open>page.extract_text()\<close> can hand back as a value.\<close>

datatype pyval = PyStr pystr | PyNone

text \<open>\<open>sub in s\<close> on strings.\<close>

fun startswith :: "pystr \<Rightarrow> pystr \<Rightarrow> bool" where
  "startswith s [] = True"
| "startswith [] (p # ps) = False"
| "startswith (c # cs) (p # ps) = (c = p \<and> startswith cs ps)"

fun str_in :: "pystr \<Rightarrow> pystr \<Rightarrow> bool" where
  "str_in sub [] = (sub = [])"
| "str_in sub (c # cs) = (startswith (c # cs) sub \<or> str_in sub cs)"

text \<open>\<open>sep.join(xs)\<close>.\<close>

fun join :: "pystr \<Rightarrow> pystr list \<Rightarrow> pystr" where
  "join sep [] = []"
| "join sep [x] = x"
| "join sep (x # y # ys) = x @ sep @ join sep (y # ys)"

text \<open>\<open>str(n)\<close> for a non-negative integer (a length): its decimal digits.\<close>

fun str_of_nat :: "nat \<Rightarrow> pystr" where
  "str_of_nat n = (if n < 10 then [48 + n] else str_of_nat (n div 10) @ [48 + n mod 10])"

declare str_of_nat.simps [simp del]

section \<open>Configuration (app.py, lines 9 to 13)\<close>

definition EMBEDDING_MODEL :: pystr where
  "EMBEDDING_MODEL = lit ''nomic-embed-text''"

definition TEXT_MODEL :: pystr where
  "TEXT_MODEL = lit ''llama3''"

definition VISION_MODEL :: pystr where
  "VISION_MODEL = lit ''llava''"

definition VECTOR_DB_PATH :: pystr where
  "VECTOR_DB_PATH = lit ''faiss_index''"

section \<open>The external collaborators\<close>

text \<open>
  The embedding client, the FAISS index, the Ollama chat endpoint and the PDF reader are
  libraries and services outside the repository. Each is a parameter of the model: a
  function from the arguments the code passes to the outcome of the call, which is either
  an exception (\<open>Inl\<close>) or the value returned (\<open>Inr\<close>). Within one run of the
  script a call repeated with the same arguments has the same outcome. Exceptions are
  instances of \<open>Exception\<close>, the ones \<open>except Exception\<close> catches.
\<close>

record document =
  page_content :: pystr

record embeddings =
  model :: pystr

text \<open>
  The loaded index, seen through the one method the code calls:
  \<open>knowledge_base.similarity_search(query, k=...)\<close>.
\<close>

record knowledge_base =
  similarity_search :: "pystr \<Rightarrow> nat \<Rightarrow> exn + document list"

record message =
  role :: pystr
  content :: pystr
  images :: "bytes list"

text \<open>
  \<open>ollama_chat w m msgs\<close> is the outcome of
  \<open>ollama.chat(model=m, messages=msgs)['message']['content']\<close>;
  \<open>PdfReader w file\<close> is the outcome of \<open>PyPDF2.PdfReader(file)\<close> together with, for each
  page of \<open>reader.pages\<close> in order, the outcome of \<open>page.extract_text()\<close>.
\<close>

record world =
  OllamaEmbeddings :: "pystr \<Rightarrow> exn + embeddings"
  FAISS_load_local :: "pystr \<Rightarrow> embeddings \<Rightarrow> bool \<Rightarrow> exn + knowledge_base"
  ollama_chat :: "pystr \<Rightarrow> message list \<Rightarrow> exn + pystr"
  PdfReader :: "bytes \<Rightarrow> exn + (exn + pyval) list"

section \<open>Observable effects\<close>

text \<open>
  A run of the script is observed through the calls it makes to the index and to the
  chat endpoint and through what it puts on the page from the sidebar on. The head of the
  page (page configuration, title and the line of markdown under it) and the widgets that
  only lay the page out (tabs, columns, expander) leave no event; neither do the input
  widgets (radio, text box, file uploaders, buttons), whose values are the fields of
  \<open>ui\<close> below.
\<close>

datatype event =
    SimilaritySearch pystr nat
  | OllamaChat pystr "message list"
  | PdfRead bytes
  | StSpinner pystr
  | StError pystr
  | StSuccess pystr
  | StWarning pystr
  | StInfo pystr
  | StWrite pystr
  | StTextArea pystr pystr
  | SidebarSuccess pystr
  | SidebarInfo pystr

datatype outcome = Completed | Stopped | Raised exn

text \<open>Retrieval and judging work: a query of the index, or a call of a model.\<close>

fun audit_work :: "event \<Rightarrow> bool" where
  "audit_work (SimilaritySearch q k) = True"
| "audit_work (OllamaChat m msgs) = True"
| "audit_work ev = False"

text \<open>A verdict shown as safe: \<open>st.success\<close> in a tab.\<close>

fun shown_pass :: "event \<Rightarrow> bool" where
  "shown_pass (StSuccess r) = True"
| "shown_pass ev = False"

text \<open>A verdict put on the page: \<open>st.error(result)\<close> or \<open>st.success(result)\<close>.\<close>

fun is_verdict :: "event \<Rightarrow> bool" where
  "is_verdict (StError r) = True"
| "is_verdict (StSuccess r) = True"
| "is_verdict ev = False"

text \<open>The index queries among the events of a run.\<close>

fun is_search :: "event \<Rightarrow> bool" where
  "is_search (SimilaritySearch q k) = True"
| "is_search ev = False"

section \<open>load_knowledge_base (app.py, lines 21 to 28)\<close>

definition load_knowledge_base :: "world \<Rightarrow> exn + knowledge_base option" where
  "load_knowledge_base w =
     (case OllamaEmbeddings w EMBEDDING_MODEL of
        Inl e \<Rightarrow> Inr None
      | Inr embeddings \<Rightarrow>
          (case FAISS_load_local w VECTOR_DB_PATH embeddings True of
             Inl e \<Rightarrow> Inr None
           | Inr db \<Rightarrow> Inr (Some db)))"

section \<open>Helper functions (app.py, lines 41 to 88)\<close>

text \<open>
  \<open>text += page.extract_text()\<close>: a page whose extraction raises ends the loop with that
  exception; adding \<open>None\<close> to a \<open>str\<close> raises \<open>TypeError\<close>.
\<close>

definition TypeError_concat :: exn where
  "TypeError_concat =
     Exn (lit ''TypeError'')
       (lit ''can only concatenate str (not '' @ [34] @ lit ''NoneType'' @ [34] @ lit '') to str'')"

fun pages_loop :: "pystr \<Rightarrow> (exn + pyval) list \<Rightarrow> exn + pystr" where
  "pages_loop text [] = Inr text"
| "pages_loop text (page # pages) =
     (case page of
        Inl e \<Rightarrow> Inl e
      | Inr PyNone \<Rightarrow> Inl TypeError_concat
      | Inr (PyStr t) \<Rightarrow> pages_loop (text @ t) pages)"

definition extract_text_from_pdf :: "world \<Rightarrow> bytes \<Rightarrow> exn + pystr" where
  "extract_text_from_pdf w file =
     (case PdfReader w file of
        Inl e \<Rightarrow> Inl e
      | Inr pages \<Rightarrow> pages_loop [] pages)"

definition vision_instruction :: pystr where
  "vision_instruction =
     lit ''Describe the physical objects and actions in this image in strict detail. '' @
     lit ''Be objective and factual. Do not minimize or soften the description. '' @
     lit ''If there is a weapon, state clearly what kind of weapon it is.''"

definition vision_messages :: "bytes \<Rightarrow> message list" where
  "vision_messages image_bytes =
     [\<lparr>role = lit ''user'', content = vision_instruction, images = [image_bytes]\<rparr>]"

definition vision_error :: "exn \<Rightarrow> pystr" where
  "vision_error e =
     lit ''Error using Vision model: '' @ exn_str e @
     lit ''. (Did you run '' @ [39] @ lit ''ollama pull llava'' @ [39] @ lit ''?)''"

definition analyze_image :: "world \<Rightarrow> bytes \<Rightarrow> exn + pystr" where
  "analyze_image w image_bytes =
     (case ollama_chat w VISION_MODEL (vision_messages image_bytes) of
        Inr response \<Rightarrow> Inr response
      | Inl e \<Rightarrow> Inr (vision_error e))"

definition indent :: pystr where
  "indent = lit ''        ''"

text \<open>
  The system prompt is an f-string with one hole, \<open>{rules_text}\<close>: the text before the
  hole, the rules, the text after it. Every line of the literal is indented by eight
  spaces, the empty-looking ones too.
\<close>

definition prompt_before_rules :: pystr where
  "prompt_before_rules =
     nl @ indent @ lit ''You are an AI Safety Compliance Officer.'' @
     nl @ indent @ lit ''Audit the following CONTENT against the SAFETY RULES.'' @
     nl @ indent @
     nl @ indent @ lit ''SAFETY RULES:'' @
     nl @ indent"

definition prompt_after_rules :: pystr where
  "prompt_after_rules =
     nl @ indent @
     nl @ indent @ lit ''INSTRUCTIONS:'' @
     nl @ indent @ lit ''- Determine if the CONTENT violates the rules.'' @
     nl @ indent @ lit ''- If text is safe, start with '' @ [34, 128994] @ lit '' PASS'' @ [34] @ lit ''.'' @
     nl @ indent @ lit ''- If unsafe, start with '' @ [34, 128308] @ lit '' FAIL'' @ [34] @ lit ''.'' @
     nl @ indent @ lit ''- Cite specific rule numbers.'' @
     nl @ indent"

definition system_prompt :: "pystr \<Rightarrow> pystr" where
  "system_prompt rules_text = prompt_before_rules @ rules_text @ prompt_after_rules"

definition judge_messages :: "pystr \<Rightarrow> pystr \<Rightarrow> message list" where
  "judge_messages rules_text content_to_audit =
     [\<lparr>role = lit ''system'', content = system_prompt rules_text, images = []\<rparr>,
      \<lparr>role = lit ''user'', content = lit ''CONTENT TO AUDIT: '' @ content_to_audit, images = []\<rparr>]"

text \<open>
  \<open>run_audit\<close> reads the module-level \<open>knowledge_base\<close>; here it is an argument. The
  result is the events of the call and either the exception that left it or the pair
  \<open>(response, rules_text)\<close>.
\<close>

definition run_audit ::
  "world \<Rightarrow> knowledge_base \<Rightarrow> pystr \<Rightarrow> pystr \<Rightarrow> event list \<times> (exn + pystr \<times> pystr)" where
  "run_audit w kb content_to_audit context_label =
     (let searched = [StSpinner (lit ''Auditing '' @ context_label @ lit ''...''),
                      SimilaritySearch content_to_audit 3]
      in case similarity_search kb content_to_audit 3 of
           Inl e \<Rightarrow> (searched, Inl e)
         | Inr retrieved_docs \<Rightarrow>
             (let rules_text = join (nl @ nl) (map page_content retrieved_docs);
                  messages = judge_messages rules_text content_to_audit;
                  judged = searched @ [OllamaChat TEXT_MODEL messages]
              in case ollama_chat w TEXT_MODEL messages of
                   Inl e \<Rightarrow> (judged, Inl e)
                 | Inr response \<Rightarrow> (judged, Inr (response, rules_text))))"

section \<open>The three tabs (app.py, lines 93 to 151)\<close>

text \<open>
  The verdict branch, written out in each of the three tabs:
  \<open>if "FAIL" in result: st.error(result) else: st.success(result)\<close>.
\<close>

definition verdict_branch :: "pystr \<Rightarrow> event list" where
  "verdict_branch result =
     (if str_in (lit ''FAIL'') result then [StError result] else [StSuccess result])"

text \<open>
  What the page holds when the script runs: the widgets' values. \<open>uploaded_pdf\<close> and
  \<open>uploaded_img\<close> are \<open>None\<close> until a file is uploaded; an uploaded file is truthy
  whatever its size.
\<close>

record ui =
  audit_mode :: pystr
  text_input :: pystr
  run_text_audit :: bool
  uploaded_pdf :: "bytes option"
  audit_pdf :: bool
  uploaded_img :: "bytes option"
  audit_image :: bool

definition tab1 :: "world \<Rightarrow> knowledge_base \<Rightarrow> ui \<Rightarrow> event list \<times> outcome" where
  "tab1 w kb u =
     (if run_text_audit u then
        (if text_input u \<noteq> [] then
           (case run_audit w kb (text_input u) (audit_mode u) of
              (evs, Inl e) \<Rightarrow> (evs, Raised e)
            | (evs, Inr (result, context)) \<Rightarrow>
                (evs @ verdict_branch result @ [StWrite context], Completed))
         else ([StWarning (lit ''Please enter text.'')], Completed))
      else ([], Completed))"

definition tab2 :: "world \<Rightarrow> knowledge_base \<Rightarrow> ui \<Rightarrow> event list \<times> outcome" where
  "tab2 w kb u =
     (case uploaded_pdf u of
        None \<Rightarrow> ([], Completed)
      | Some file \<Rightarrow>
          (if audit_pdf u then
             (case extract_text_from_pdf w file of
                Inl e \<Rightarrow> ([PdfRead file], Raised e)
              | Inr pdf_text \<Rightarrow>
                  (let shown = [PdfRead file,
                                StInfo (lit ''Extracted '' @ str_of_nat (length pdf_text) @
                                        lit '' characters from PDF.'')]
                   in case run_audit w kb pdf_text (lit ''PDF Content'') of
                        (evs, Inl e) \<Rightarrow> (shown @ evs, Raised e)
                      | (evs, Inr (result, context)) \<Rightarrow>
                          (shown @ evs @ verdict_branch result, Completed)))
           else ([], Completed)))"

text \<open>
  The image tab opens with a line of text (\<open>st.write\<close>, line 132) on every run, before it
  looks at the uploader.
\<close>

definition llava_banner :: pystr where
  "llava_banner =
     lit ''Uses **Llava** (Vision Model) to scan images for prohibited symbols/actions.''"

definition tab3 :: "world \<Rightarrow> knowledge_base \<Rightarrow> ui \<Rightarrow> event list \<times> outcome" where
  "tab3 w kb u =
     (case uploaded_img u of
        None \<Rightarrow> ([StWrite llava_banner], Completed)
      | Some img_bytes \<Rightarrow>
          (if audit_image u then
             (case analyze_image w img_bytes of
                Inl e \<Rightarrow> ([StWrite llava_banner,
                           StSpinner ([128064] @ lit '' Vision Model analyzing image content...''),
                           OllamaChat VISION_MODEL (vision_messages img_bytes)], Raised e)
              | Inr visual_description \<Rightarrow>
                  (let shown = [StWrite llava_banner,
                                StSpinner ([128064] @ lit '' Vision Model analyzing image content...''),
                                OllamaChat VISION_MODEL (vision_messages img_bytes),
                                StTextArea (lit ''Vision Model Description:'') visual_description]
                   in case run_audit w kb visual_description (lit ''Image Description'') of
                        (evs, Inl e) \<Rightarrow> (shown @ evs, Raised e)
                      | (evs, Inr (result, context)) \<Rightarrow>
                          (shown @ evs @ verdict_branch result, Completed)))
           else ([StWrite llava_banner], Completed)))"

section \<open>The script (app.py, lines 30 to 38 and the tabs in order)\<close>

definition and_then :: "event list \<times> outcome \<Rightarrow> event list \<times> outcome \<Rightarrow> event list \<times> outcome" where
  "and_then a b = (case snd a of Completed \<Rightarrow> (fst a @ fst b, snd b) | Stopped \<Rightarrow> a | Raised e \<Rightarrow> a)"

definition database_not_found :: pystr where
  "database_not_found =
     [10060] @ lit '' Database not found. Please run '' @ [39] @ lit ''create_db.py'' @ [39] @ lit '' first.''"

definition script :: "world \<Rightarrow> ui \<Rightarrow> event list \<times> outcome" where
  "script w u =
     (case load_knowledge_base w of
        Inl e \<Rightarrow> ([], Raised e)
      | Inr None \<Rightarrow> ([StError database_not_found], Stopped)
      | Inr (Some kb) \<Rightarrow>
          and_then
            ([SidebarSuccess ([9989] @ lit '' Policy Database Active''),
              SidebarInfo (lit ''Current Policy: EU AI Act / Internal Rules'')], Completed)
            (and_then (tab1 w kb u) (and_then (tab2 w kb u) (tab3 w kb u))))"

section \<open>The vector index (spec, sections 3, 4.2 and 6)\<close>

text \<open>
  Modelled from the spec: an embedding vector, "a fixed-length ordered sequence of
  floating-point numbers" (section 3). The numbers are taken as reals; only their order
  matters below.
\<close>

type_synonym vec = "real list"

text \<open>
  Modelled from the spec: a Vector Index Entry, the pair of a chunk and its embedding
  (section 3). The chunk is the document whose \<open>page_content\<close> the code reads.
\<close>

record index_entry =
  chunk :: document
  embedding :: vec

text \<open>
  Modelled from the spec: the persisted Vector Index, its entries in insertion order,
  with the Embedder it was built for (\<open>embed(text)\<close> gives a vector, or fails as an
  external service can) and the similarity metric that is part of its configuration
  (sections 4.2, 6 and 7). The code reaches all three through the FAISS and Ollama
  libraries, which are not part of the repository.
\<close>

record vector_index =
  entries :: "index_entry list"
  embed :: "pystr \<Rightarrow> exn + vec"
  similarity :: "vec \<Rightarrow> vec \<Rightarrow> real"

text \<open>
  Modelled from the spec: every chunk of the index with its similarity score to the query
  vector, in insertion order.
\<close>

definition scored :: "vector_index \<Rightarrow> vec \<Rightarrow> (document \<times> real) list" where
  "scored ix q = map (\<lambda>e. (chunk e, similarity ix q (embedding e))) (entries ix)"

text \<open>
  Modelled from the spec: the ranking of section 3, "by descending similarity score; ties
  broken by index-insertion order". The sort is the library's stable insertion sort, on
  the negated score.
\<close>

definition ranked :: "vector_index \<Rightarrow> vec \<Rightarrow> (document \<times> real) list" where
  "ranked ix q = sort_key (\<lambda>cs. - snd cs) (scored ix q)"

text \<open>
  Modelled from the spec: \<open>search(query_embedding, k)\<close> of section 4.2, the first \<open>k\<close>
  of the ranking.
\<close>

definition search :: "vector_index \<Rightarrow> vec \<Rightarrow> nat \<Rightarrow> (document \<times> real) list" where
  "search ix q k = take k (ranked ix q)"

text \<open>
  Modelled from the spec: the loaded index as the object the code calls, following the
  Retriever of section 4.4: embed the content text, search with the vector, hand back the
  chunks in ranked order.
\<close>

definition index_kb :: "vector_index \<Rightarrow> knowledge_base" where
  "index_kb ix =
     \<lparr>similarity_search =
        (\<lambda>query k. case embed ix query of
                      Inl e \<Rightarrow> Inl e
                    | Inr q \<Rightarrow> Inr (map fst (search ix q k)))\<rparr>"

section \<open>A small deployment, for concrete runs\<close>

definition rule1 :: document where
  "rule1 = \<lparr>page_content = lit ''Rule 1: No violent content is permitted.''\<rparr>"

definition rule2 :: document where
  "rule2 = \<lparr>page_content = lit ''Rule 2: No weapons.''\<rparr>"

definition demo_kb :: knowledge_base where
  "demo_kb = \<lparr>similarity_search = (\<lambda>q k. Inr (take k [rule1, rule2]))\<rparr>"

definition connection_refused :: exn where
  "connection_refused = Exn (lit ''ConnectionError'') (lit ''connection refused'')"

definition index_missing :: exn where
  "index_missing = Exn (lit ''RuntimeError'') (lit ''could not open faiss_index/index.faiss'')"

definition pdf_broken :: exn where
  "pdf_broken = Exn (lit ''PdfReadError'') (lit ''EOF marker not found'')"

text \<open>
  The index loads, the vision model is unreachable, the judge answers every prompt with a
  pass, and every PDF has three pages of which only the second carries text.
\<close>

definition demo_world :: world where
  "demo_world =
     \<lparr>OllamaEmbeddings = (\<lambda>m. Inr \<lparr>model = m\<rparr>),
      FAISS_load_local = (\<lambda>path emb allow. Inr demo_kb),
      ollama_chat = (\<lambda>m msgs. if m = VISION_MODEL then Inl connection_refused
                                 else Inr (lit ''PASS: no rule is violated'')),
      PdfReader = (\<lambda>file. Inr [Inr (PyStr []), Inr (PyStr (lit ''page two'')), Inr (PyStr [])])\<rparr>"

definition idle_ui :: ui where
  "idle_ui =
     \<lparr>audit_mode = lit ''User Prompt'', text_input = [], run_text_audit = False,
      uploaded_pdf = None, audit_pdf = False, uploaded_img = None, audit_image = False\<rparr>"

text \<open>
  A two-chunk index with the inner product as its metric. The second rule was inserted
  first; every query is embedded as \<open>[1, 0]\<close>, which is the first rule's vector.
\<close>

definition demo_index :: vector_index where
  "demo_index =
     \<lparr>entries = [\<lparr>chunk = rule2, embedding = [0, 1]\<rparr>, \<lparr>chunk = rule1, embedding = [1, 0]\<rparr>],
      embed = (\<lambda>text. Inr [1, 0]),
      similarity = (\<lambda>q v. sum_list (map2 (*) q v))\<rparr>"

section \<open>Substring search\<close>

lemma startswith_iff: "startswith s p = (\<exists>post. s = p @ post)"
  by (induction s p rule: startswith.induct) auto

lemma str_in_iff: "str_in sub s = (\<exists>pre post. s = pre @ sub @ post)"
proof (induction s)
  case Nil
  then show ?case by auto
next
  case (Cons c cs)
  show ?case
  proof
    assume "str_in sub (c # cs)"
    then consider "startswith (c # cs) sub" | "str_in sub cs" by auto
    then show "\<exists>pre post. c # cs = pre @ sub @ post"
    proof cases
      case 1
      then obtain post where "c # cs = sub @ post" by (auto simp: startswith_iff)
      then have "c # cs = [] @ sub @ post" by simp
      then show ?thesis by blast
    next
      case 2
      then obtain pre post where "cs = pre @ sub @ post" using Cons.IH by auto
      then have "c # cs = (c # pre) @ sub @ post" by simp
      then show ?thesis by blast
    qed
  next
    assume "\<exists>pre post. c # cs = pre @ sub @ post"
    then obtain pre post where eq: "c # cs = pre @ sub @ post" by blast
    show "str_in sub (c # cs)"
    proof (cases pre)
      case Nil
      with eq have "startswith (c # cs) sub" by (auto simp: startswith_iff)
      then show ?thesis by simp
    next
      case (Cons a pre')
      with eq have "cs = pre' @ sub @ post" by simp
      then have "str_in sub cs" using Cons.IH by blast
      then show ?thesis by simp
    qed
  qed
qed

section \<open>Decimal rendering\<close>

lemma str_of_nat_not_empty: "str_of_nat n \<noteq> []"
  by (subst str_of_nat.simps) simp

lemma str_of_nat_inj: "str_of_nat n = str_of_nat m \<Longrightarrow> n = m"
proof (induction n arbitrary: m rule: less_induct)
  case (less n)
  have unfold_small: "str_of_nat k = [48 + k]" if "k < 10" for k
    using that by (subst str_of_nat.simps) simp
  have unfold_big: "str_of_nat k = str_of_nat (k div 10) @ [48 + k mod 10]" if "\<not> k < 10" for k
    using that by (subst str_of_nat.simps) simp
  show ?case
  proof (cases "n < 10")
    case n_small: True
    show ?thesis
    proof (cases "m < 10")
      case True
      with n_small less.prems show ?thesis
        by (simp add: unfold_small)
    next
      case False
      with n_small less.prems have "[48 + n] = str_of_nat (m div 10) @ [48 + m mod 10]"
        by (simp add: unfold_small unfold_big)
      then have "str_of_nat (m div 10) = []"
        by simp
      then show ?thesis
        using str_of_nat_not_empty by blast
    qed
  next
    case n_big: False
    show ?thesis
    proof (cases "m < 10")
      case True
      with n_big less.prems have "str_of_nat (n div 10) @ [48 + n mod 10] = [48 + m]"
        by (simp add: unfold_small unfold_big)
      then have "str_of_nat (n div 10) = []"
        by simp
      then show ?thesis
        using str_of_nat_not_empty by blast
    next
      case False
      with n_big less.prems
      have eq: "str_of_nat (n div 10) @ [48 + n mod 10] = str_of_nat (m div 10) @ [48 + m mod 10]"
        by (simp add: unfold_big)
      then have "str_of_nat (n div 10) = str_of_nat (m div 10)" and r: "n mod 10 = m mod 10"
        by simp_all
      moreover have "n div 10 < n"
        using n_big by simp
      ultimately have "n div 10 = m div 10"
        using less.IH by blast
      with r show ?thesis
        by (metis div_mult_mod_eq)
    qed
  qed
qed

section \<open>The page loop\<close>

lemma pages_loop_strings:
  "pages_loop acc (map (\<lambda>t. Inr (PyStr t)) ts @ rest) = pages_loop (acc @ concat ts) rest"
  by (induction ts arbitrary: acc) simp_all

section \<open>Facts about the configuration\<close>

lemma text_model_not_vision_model: "TEXT_MODEL \<noteq> VISION_MODEL"
  by (simp add: TEXT_MODEL_def VISION_MODEL_def lit_def)

section \<open>Verdict classification\<close>

lemma run_audit_shows_no_verdict: "filter is_verdict (fst (run_audit w kb c l)) = []"
  by (simp add: run_audit_def Let_def split: sum.splits)

lemma verdict_branch_substring:
  "verdict_branch result =
     (if \<exists>pre post. result = pre @ lit ''FAIL'' @ post then [StError result] else [StSuccess result])"
  by (simp add: verdict_branch_def str_in_iff)

text \<open>
  C1. The verdict branch shows the judge's raw response as a failure (\<open>st.error\<close>)
  exactly when the four characters FAIL occur somewhere in it, contiguously, and as a
  pass (\<open>st.success\<close>) otherwise. In each of the three tabs, whenever the audit returns a
  response, this is the one verdict the tab shows.
\<close>

theorem verdict_fail_iff_substring:
  "verdict_branch result =
     (if \<exists>pre post. result = pre @ lit ''FAIL'' @ post then [StError result] else [StSuccess result]) \<and>
   (run_text_audit u \<and> text_input u \<noteq> [] \<and>
    snd (run_audit w kb (text_input u) (audit_mode u)) = Inr (result, ctx) \<longrightarrow>
      filter is_verdict (fst (tab1 w kb u)) =
        (if \<exists>pre post. result = pre @ lit ''FAIL'' @ post then [StError result] else [StSuccess result])) \<and>
   (uploaded_pdf u = Some file \<and> audit_pdf u \<and> extract_text_from_pdf w file = Inr pdf_text \<and>
    snd (run_audit w kb pdf_text (lit ''PDF Content'')) = Inr (result, ctx) \<longrightarrow>
      filter is_verdict (fst (tab2 w kb u)) =
        (if \<exists>pre post. result = pre @ lit ''FAIL'' @ post then [StError result] else [StSuccess result])) \<and>
   (uploaded_img u = Some img_bytes \<and> audit_image u \<and>
    analyze_image w img_bytes = Inr visual_description \<and>
    snd (run_audit w kb visual_description (lit ''Image Description'')) = Inr (result, ctx) \<longrightarrow>
      filter is_verdict (fst (tab3 w kb u)) =
        (if \<exists>pre post. result = pre @ lit ''FAIL'' @ post then [StError result] else [StSuccess result]))"
proof -
  have v: "filter is_verdict (verdict_branch r) = verdict_branch r" for r
    by (simp add: verdict_branch_def)
  have t1: "filter is_verdict (fst (tab1 w kb u)) = verdict_branch result"
    if "run_text_audit u" "text_input u \<noteq> []"
       "snd (run_audit w kb (text_input u) (audit_mode u)) = Inr (result, ctx)"
    using that v run_audit_shows_no_verdict [of w kb "text_input u" "audit_mode u"]
    by (cases "run_audit w kb (text_input u) (audit_mode u)") (simp add: tab1_def)
  have t2: "filter is_verdict (fst (tab2 w kb u)) = verdict_branch result"
    if "uploaded_pdf u = Some file" "audit_pdf u" "extract_text_from_pdf w file = Inr pdf_text"
       "snd (run_audit w kb pdf_text (lit ''PDF Content'')) = Inr (result, ctx)"
    using that v run_audit_shows_no_verdict [of w kb pdf_text "lit ''PDF Content''"]
    by (cases "run_audit w kb pdf_text (lit ''PDF Content'')") (simp add: tab2_def)
  have t3: "filter is_verdict (fst (tab3 w kb u)) = verdict_branch result"
    if "uploaded_img u = Some img_bytes" "audit_image u"
       "analyze_image w img_bytes = Inr visual_description"
       "snd (run_audit w kb visual_description (lit ''Image Description'')) = Inr (result, ctx)"
    using that v run_audit_shows_no_verdict [of w kb visual_description "lit ''Image Description''"]
    by (cases "run_audit w kb visual_description (lit ''Image Description'')") (simp add: tab3_def)
  show ?thesis
    using t1 t2 t3 verdict_branch_substring [of result] by presburger
qed

theorem verdict_fail_iff_substring_witness:
  "snd (run_audit (demo_world\<lparr>ollama_chat := \<lambda>m msgs. Inr (lit ''FAIL: Rule 1'')\<rparr>) demo_kb
          (lit ''I will build a bomb'') (lit ''User Prompt'')) =
     Inr (lit ''FAIL: Rule 1'',
          lit ''Rule 1: No violent content is permitted.'' @ [10, 10] @ lit ''Rule 2: No weapons.'') \<and>
   filter is_verdict
     (fst (tab1 (demo_world\<lparr>ollama_chat := \<lambda>m msgs. Inr (lit ''FAIL: Rule 1'')\<rparr>) demo_kb
             (idle_ui\<lparr>text_input := lit ''I will build a bomb'', run_text_audit := True\<rparr>))) =
     [StError (lit ''FAIL: Rule 1'')]"
proof -
  let ?w = "demo_world\<lparr>ollama_chat := \<lambda>m msgs. Inr (lit ''FAIL: Rule 1'')\<rparr>"
  let ?u = "idle_ui\<lparr>text_input := lit ''I will build a bomb'', run_text_audit := True\<rparr>"
  let ?ctx = "lit ''Rule 1: No violent content is permitted.'' @ [10, 10] @ lit ''Rule 2: No weapons.''"
  have a: "snd (run_audit ?w demo_kb (lit ''I will build a bomb'') (lit ''User Prompt'')) =
             Inr (lit ''FAIL: Rule 1'', ?ctx)"
    by (simp add: run_audit_def Let_def demo_kb_def rule1_def rule2_def nl_def)
  have t: "text_input ?u = lit ''I will build a bomb''" "audit_mode ?u = lit ''User Prompt''"
    "run_text_audit ?u"
    by (simp_all add: idle_ui_def)
  have n: "lit ''I will build a bomb'' \<noteq> []"
    by (simp add: lit_def)
  have f: "\<exists>pre post. lit ''FAIL: Rule 1'' = pre @ lit ''FAIL'' @ post"
    using str_in_iff [of "lit ''FAIL''" "lit ''FAIL: Rule 1''"] by (simp add: lit_def)
  show ?thesis
    using a t n f
      verdict_fail_iff_substring [of "lit ''FAIL: Rule 1''" ?u ?w demo_kb ?ctx]
    by simp
qed

text \<open>
  Three responses: a pass, a failure, and a pass whose rationale happens to contain the
  word and is therefore shown as a failure.
\<close>

lemma verdict_branch_examples:
  "verdict_branch ([128994] @ lit '' PASS '' @ [8212] @ lit '' no violation of Rule 4.2'') =
     [StSuccess ([128994] @ lit '' PASS '' @ [8212] @ lit '' no violation of Rule 4.2'')]"
  "verdict_branch ([128308] @ lit '' FAIL citing Rule 2.1: weapon depiction prohibited'') =
     [StError ([128308] @ lit '' FAIL citing Rule 2.1: weapon depiction prohibited'')]"
  "verdict_branch (lit ''PASS: the text does not FAIL any rule'') =
     [StError (lit ''PASS: the text does not FAIL any rule'')]"
  by (simp_all add: verdict_branch_def lit_def)

section \<open>Loading the index\<close>

text \<open>
  C10. \<open>load_knowledge_base\<close> never raises. A failure to build the embedding client (a
  configuration error) and a failure of \<open>FAISS.load_local\<close> (a missing or corrupted index)
  both give \<open>None\<close>, so two deployments that fail in these two different ways give the
  caller the same value.
\<close>

theorem load_knowledge_base_never_raises:
  "(\<exists>r. load_knowledge_base w = Inr r) \<and>
   ((\<exists>e. OllamaEmbeddings w EMBEDDING_MODEL = Inl e) \<longrightarrow> load_knowledge_base w = Inr None) \<and>
   (\<forall>emb e. OllamaEmbeddings w EMBEDDING_MODEL = Inr emb \<and>
            FAISS_load_local w VECTOR_DB_PATH emb True = Inl e \<longrightarrow>
            load_knowledge_base w = Inr None) \<and>
   load_knowledge_base (w\<lparr>OllamaEmbeddings := \<lambda>m. Inl e1\<rparr>) =
     load_knowledge_base (w\<lparr>OllamaEmbeddings := \<lambda>m. Inr emb0, FAISS_load_local := \<lambda>p em a. Inl e2\<rparr>)"
  by (auto simp: load_knowledge_base_def split: sum.splits)

theorem load_knowledge_base_never_raises_witness:
  "FAISS_load_local (demo_world\<lparr>FAISS_load_local := \<lambda>p em a. Inl index_missing\<rparr>)
      VECTOR_DB_PATH \<lparr>model = EMBEDDING_MODEL\<rparr> True = Inl index_missing \<and>
   load_knowledge_base (demo_world\<lparr>FAISS_load_local := \<lambda>p em a. Inl index_missing\<rparr>) = Inr None \<and>
   OllamaEmbeddings (demo_world\<lparr>OllamaEmbeddings := \<lambda>m. Inl connection_refused\<rparr>)
      EMBEDDING_MODEL = Inl connection_refused \<and>
   load_knowledge_base (demo_world\<lparr>OllamaEmbeddings := \<lambda>m. Inl connection_refused\<rparr>) = Inr None"
  using load_knowledge_base_never_raises
          [of "demo_world\<lparr>FAISS_load_local := \<lambda>p em a. Inl index_missing\<rparr>"]
        load_knowledge_base_never_raises
          [of "demo_world\<lparr>OllamaEmbeddings := \<lambda>m. Inl connection_refused\<rparr>"]
  by (simp add: demo_world_def)

text \<open>
  C3. If \<open>FAISS.load_local\<close> fails on the configured path, the script shows the error
  "Database not found. Please run 'create_db.py' first." and stops: whatever the widgets
  hold, no tab runs, so the index is never queried, no model is called and nothing is
  shown as a pass.
\<close>

theorem script_refuses_without_index:
  assumes "OllamaEmbeddings w EMBEDDING_MODEL = Inr emb"
    and "FAISS_load_local w VECTOR_DB_PATH emb True = Inl e"
  shows "script w u = ([StError database_not_found], Stopped) \<and>
         filter audit_work (fst (script w u)) = [] \<and>
         filter shown_pass (fst (script w u)) = []"
  using assms by (simp add: script_def load_knowledge_base_def)

theorem script_refuses_without_index_witness:
  "script (demo_world\<lparr>FAISS_load_local := \<lambda>p em a. Inl index_missing\<rparr>)
     (idle_ui\<lparr>text_input := lit ''I will build a bomb'', run_text_audit := True\<rparr>) =
     ([StError database_not_found], Stopped)"
  using script_refuses_without_index
          [of "demo_world\<lparr>FAISS_load_local := \<lambda>p em a. Inl index_missing\<rparr>"
              "\<lparr>model = EMBEDDING_MODEL\<rparr>" index_missing
              "idle_ui\<lparr>text_input := lit ''I will build a bomb'', run_text_audit := True\<rparr>"]
  by (simp add: demo_world_def)

section \<open>Input guards\<close>

text \<open>
  C7. An entry point whose required input is missing or empty does no audit work. With an
  empty text box the text tab only warns "Please enter text." when its button is pressed;
  with no file uploaded the PDF tab does nothing and the image tab shows only its opening
  line. In none of these cases is the index queried or a model called, and if all three
  inputs are absent the whole run queries the index and calls a model not once.
\<close>

theorem empty_input_does_no_audit_work:
  "(text_input u = [] \<longrightarrow>
      tab1 w kb u =
        (if run_text_audit u then [StWarning (lit ''Please enter text.'')] else [], Completed) \<and>
      filter audit_work (fst (tab1 w kb u)) = []) \<and>
   (uploaded_pdf u = None \<longrightarrow>
      tab2 w kb u = ([], Completed) \<and>
      filter audit_work (fst (tab2 w kb u)) = []) \<and>
   (uploaded_img u = None \<longrightarrow>
      tab3 w kb u = ([StWrite llava_banner], Completed) \<and>
      filter audit_work (fst (tab3 w kb u)) = []) \<and>
   (text_input u = [] \<and> uploaded_pdf u = None \<and> uploaded_img u = None \<longrightarrow>
      filter audit_work (fst (script w u)) = [])"
  by (auto simp: tab1_def tab2_def tab3_def script_def and_then_def
           split: sum.splits option.splits)

theorem empty_input_does_no_audit_work_witness:
  "text_input (idle_ui\<lparr>run_text_audit := True\<rparr>) = [] \<and>
   uploaded_pdf (idle_ui\<lparr>run_text_audit := True\<rparr>) = None \<and>
   uploaded_img (idle_ui\<lparr>run_text_audit := True\<rparr>) = None \<and>
   tab1 demo_world demo_kb (idle_ui\<lparr>run_text_audit := True\<rparr>) =
     ([StWarning (lit ''Please enter text.'')], Completed) \<and>
   tab2 demo_world demo_kb (idle_ui\<lparr>run_text_audit := True\<rparr>) = ([], Completed) \<and>
   tab3 demo_world demo_kb (idle_ui\<lparr>run_text_audit := True\<rparr>) =
     ([StWrite llava_banner], Completed) \<and>
   filter audit_work (fst (script demo_world (idle_ui\<lparr>run_text_audit := True\<rparr>))) = []"
  using empty_input_does_no_audit_work [of "idle_ui\<lparr>run_text_audit := True\<rparr>" demo_world demo_kb]
  by (simp add: idle_ui_def)

section \<open>Image description\<close>

text \<open>
  C8. \<open>analyze_image\<close> returns a string for every outcome of the vision service and never
  raises. When the service fails with \<open>e\<close> it returns the message
  "Error using Vision model: ", \<open>str(e)\<close>, ". (Did you run 'ollama pull llava'?)". That
  value is an ordinary string: a service that succeeds with this very text as its
  description makes \<open>analyze_image\<close> return the same thing.
\<close>

theorem analyze_image_total:
  "(\<exists>s. analyze_image w image_bytes = Inr s) \<and>
   (\<forall>e. ollama_chat w VISION_MODEL (vision_messages image_bytes) = Inl e \<longrightarrow>
        analyze_image w image_bytes = Inr (vision_error e) \<and>
        startswith (vision_error e) (lit ''Error using Vision model:'')) \<and>
   analyze_image (w\<lparr>ollama_chat := \<lambda>m msgs. Inl e0\<rparr>) image_bytes =
     analyze_image (w\<lparr>ollama_chat := \<lambda>m msgs. Inr (vision_error e0)\<rparr>) image_bytes"
proof -
  have "startswith (vision_error e) (lit ''Error using Vision model:'')" for e
    by (simp add: vision_error_def lit_def)
  then show ?thesis
    by (auto simp: analyze_image_def split: sum.splits)
qed

theorem analyze_image_total_witness:
  "ollama_chat demo_world VISION_MODEL (vision_messages [1, 2, 3]) = Inl connection_refused \<and>
   analyze_image demo_world [1, 2, 3] =
     Inr (lit ''Error using Vision model: connection refused. (Did you run '' @ [39] @
          lit ''ollama pull llava'' @ [39] @ lit ''?)'')"
  using analyze_image_total [of demo_world "[1, 2, 3]" connection_refused]
  by (simp add: demo_world_def vision_error_def connection_refused_def lit_def)

section \<open>PDF text extraction\<close>

text \<open>
  C9. \<open>extract_text_from_pdf\<close> handles no error. If \<open>PdfReader\<close> raises, if a page's
  \<open>extract_text\<close> raises, or if a page yields \<open>None\<close> (after pages that yielded strings),
  the function ends with that exception (for \<open>None\<close>, the \<open>TypeError\<close> of the
  concatenation) and returns no value. The PDF tab does not catch it either: the run ends
  with the exception raised, before the character count is shown and before any audit.
\<close>

theorem extract_text_from_pdf_propagates:
  "(PdfReader w file = Inl e \<longrightarrow> extract_text_from_pdf w file = Inl e) \<and>
   (PdfReader w file = Inr (map (\<lambda>t. Inr (PyStr t)) ts @ Inl e # rest) \<longrightarrow>
      extract_text_from_pdf w file = Inl e) \<and>
   (PdfReader w file = Inr (map (\<lambda>t. Inr (PyStr t)) ts @ Inr PyNone # rest) \<longrightarrow>
      extract_text_from_pdf w file = Inl TypeError_concat) \<and>
   (uploaded_pdf u = Some file \<and> audit_pdf u \<and> extract_text_from_pdf w file = Inl e \<longrightarrow>
      tab2 w kb u = ([PdfRead file], Raised e) \<and>
      (load_knowledge_base w = Inr (Some kb) \<and> \<not> run_text_audit u \<longrightarrow>
         snd (script w u) = Raised e))"
  by (simp add: extract_text_from_pdf_def tab1_def tab2_def script_def and_then_def
        pages_loop_strings)

theorem extract_text_from_pdf_propagates_witness:
  "extract_text_from_pdf (demo_world\<lparr>PdfReader := \<lambda>f. Inl pdf_broken\<rparr>) [37, 80, 68, 70] =
     Inl pdf_broken \<and>
   extract_text_from_pdf
     (demo_world\<lparr>PdfReader := \<lambda>f. Inr [Inr (PyStr (lit ''page one'')), Inr PyNone]\<rparr>)
     [37, 80, 68, 70] = Inl TypeError_concat \<and>
   tab2 (demo_world\<lparr>PdfReader := \<lambda>f. Inl pdf_broken\<rparr>) demo_kb
     (idle_ui\<lparr>uploaded_pdf := Some [37, 80, 68, 70], audit_pdf := True\<rparr>) =
     ([PdfRead [37, 80, 68, 70]], Raised pdf_broken)"
  using extract_text_from_pdf_propagates
          [of "demo_world\<lparr>PdfReader := \<lambda>f. Inl pdf_broken\<rparr>" "[37, 80, 68, 70]" pdf_broken
              "[]" "[]" "idle_ui\<lparr>uploaded_pdf := Some [37, 80, 68, 70], audit_pdf := True\<rparr>" demo_kb]
        extract_text_from_pdf_propagates
          [of "demo_world\<lparr>PdfReader := \<lambda>f. Inr [Inr (PyStr (lit ''page one'')), Inr PyNone]\<rparr>"
              "[37, 80, 68, 70]" pdf_broken "[lit ''page one'']" "[]" idle_ui demo_kb]
  by (simp add: idle_ui_def)

text \<open>
  C5. For a PDF that the reader parses and whose pages each yield a string (the empty
  string for a page without extractable text), the extracted text is the concatenation of
  the pages' strings in page order. The PDF tab then shows
  "Extracted n characters from PDF." with n the decimal rendering of the length of
  exactly that text (a rendering no other number has), and goes on to audit that text.
\<close>

theorem extract_text_from_pdf_concat:
  assumes "PdfReader w file = Inr (map (\<lambda>t. Inr (PyStr t)) ts)"
  shows "extract_text_from_pdf w file = Inr (concat ts) \<and>
         (uploaded_pdf u = Some file \<and> audit_pdf u \<longrightarrow>
            take 4 (fst (tab2 w kb u)) =
              [PdfRead file,
               StInfo (lit ''Extracted '' @ str_of_nat (length (concat ts)) @
                       lit '' characters from PDF.''),
               StSpinner (lit ''Auditing '' @ lit ''PDF Content'' @ lit ''...''),
               SimilaritySearch (concat ts) 3]) \<and>
         (\<forall>n. str_of_nat n = str_of_nat (length (concat ts)) \<longrightarrow> n = length (concat ts))"
proof -
  have ex: "extract_text_from_pdf w file = Inr (concat ts)"
    using assms pages_loop_strings [of "[]" ts "[]"]
    by (simp add: extract_text_from_pdf_def)
  have shown: "take 4 (fst (tab2 w kb u)) =
              [PdfRead file,
               StInfo (lit ''Extracted '' @ str_of_nat (length (concat ts)) @
                       lit '' characters from PDF.''),
               StSpinner (lit ''Auditing '' @ lit ''PDF Content'' @ lit ''...''),
               SimilaritySearch (concat ts) 3]"
    if "uploaded_pdf u = Some file" "audit_pdf u"
    using that ex
    by (simp add: tab2_def run_audit_def Let_def split: sum.splits)
  show ?thesis
    using ex shown str_of_nat_inj by blast
qed

theorem extract_text_from_pdf_concat_witness:
  "PdfReader demo_world [37, 80, 68, 70] = Inr (map (\<lambda>t. Inr (PyStr t)) [[], lit ''page two'', []]) \<and>
   extract_text_from_pdf demo_world [37, 80, 68, 70] = Inr (lit ''page two'') \<and>
   take 4 (fst (tab2 demo_world demo_kb
                  (idle_ui\<lparr>uploaded_pdf := Some [37, 80, 68, 70], audit_pdf := True\<rparr>))) =
     [PdfRead [37, 80, 68, 70],
      StInfo (lit ''Extracted 8 characters from PDF.''),
      StSpinner (lit ''Auditing PDF Content...''),
      SimilaritySearch (lit ''page two'') 3]"
proof -
  have h: "PdfReader demo_world [37, 80, 68, 70] =
             Inr (map (\<lambda>t. Inr (PyStr t)) [[], lit ''page two'', []])"
    by (simp add: demo_world_def)
  have n: "str_of_nat (length (concat [[], lit ''page two'', []])) = lit ''8''"
    by (simp add: lit_def str_of_nat.simps)
  have m: "lit ''Extracted '' @ lit ''8'' @ lit '' characters from PDF.'' =
           lit ''Extracted 8 characters from PDF.''"
    "lit ''Auditing '' @ lit ''PDF Content'' @ lit ''...'' = lit ''Auditing PDF Content...''"
    by (simp_all add: lit_def)
  show ?thesis
    using h n m
      extract_text_from_pdf_concat
        [OF h, of "idle_ui\<lparr>uploaded_pdf := Some [37, 80, 68, 70], audit_pdf := True\<rparr>" demo_kb]
    by (simp add: idle_ui_def)
qed

section \<open>Retrieval and the judge prompt\<close>

lemma length_search: "length (search ix q k) = min k (length (entries ix))"
  by (simp add: search_def ranked_def scored_def min.commute)

lemma ranked_descending: "sorted_wrt (\<lambda>a b. snd b \<le> snd a) (ranked ix q)"
proof -
  have "sorted (map (\<lambda>cs. - snd cs) (ranked ix q))"
    unfolding ranked_def by (rule sorted_sort_key)
  then show ?thesis
    by (simp add: sorted_map)
qed

lemma search_descending: "sorted_wrt (\<lambda>a b. snd b \<le> snd a) (search ix q k)"
  unfolding search_def using ranked_descending by (rule sorted_wrt_take)

lemma ranked_split: "ranked ix q = search ix q k @ drop k (ranked ix q)"
  by (simp add: search_def)

lemma mset_ranked: "mset (ranked ix q) = mset (scored ix q)"
  by (simp add: ranked_def)

lemma mset_scored_split: "mset (scored ix q) = mset (search ix q k) + mset (drop k (ranked ix q))"
  using mset_ranked [of ix q] ranked_split [of ix q k]
  by (metis mset_append)

lemma search_from_index: "mset (search ix q k) \<subseteq># mset (scored ix q)"
  by (simp add: mset_scored_split [of ix q k])

lemma search_is_top:
  assumes "a \<in> set (search ix q k)"
    and "b \<in># mset (scored ix q) - mset (search ix q k)"
  shows "snd b \<le> snd a"
proof -
  have "b \<in> set (drop k (ranked ix q))"
    using assms(2) by (simp add: mset_scored_split [of ix q k])
  moreover have "sorted_wrt (\<lambda>a b. snd b \<le> snd a) (search ix q k @ drop k (ranked ix q))"
    using ranked_descending [of ix q] ranked_split [of ix q k] by simp
  ultimately show ?thesis
    using assms(1) by (auto simp: sorted_wrt_append)
qed

text \<open>
  C4, as the claim states it, at a concrete input: the index holds two chunks, both are
  retrieved, the more similar first, and the rules context is the first chunk, a blank
  line ("\n\n"), and the second chunk. It is not the concatenation of the two chunk texts.
\<close>

theorem rules_context_is_not_bare_concatenation:
  "map fst (search demo_index [1, 0] 3) = [rule1, rule2] \<and>
   snd (run_audit demo_world (index_kb demo_index) (lit ''I will build a bomb'') (lit ''User Prompt'')) =
     Inr (lit ''PASS: no rule is violated'',
          lit ''Rule 1: No violent content is permitted.'' @ [10, 10] @ lit ''Rule 2: No weapons.'') \<and>
   lit ''Rule 1: No violent content is permitted.'' @ [10, 10] @ lit ''Rule 2: No weapons.'' \<noteq>
     concat (map page_content (map fst (search demo_index [1, 0] 3)))"
proof -
  have s: "search demo_index [1, 0] 3 = [(rule1, 1), (rule2, 0)]"
    by (simp add: search_def ranked_def scored_def demo_index_def)
  have e: "embed demo_index (lit ''I will build a bomb'') = Inr [1, 0]"
    by (simp add: demo_index_def)
  have r: "similarity_search (index_kb demo_index) (lit ''I will build a bomb'') 3 =
             Inr [rule1, rule2]"
    by (simp add: index_kb_def e s)
  have c: "ollama_chat demo_world TEXT_MODEL msgs = Inr (lit ''PASS: no rule is violated'')" for msgs
    by (simp add: demo_world_def text_model_not_vision_model)
  show ?thesis
    by (simp add: s r c run_audit_def Let_def rule1_def rule2_def nl_def)
qed

text \<open>
  C4, amended. For every content string the audit queries the index exactly once, with
  that string and k = 3. When the string is embedded, the audit retrieves exactly the top
  3 most similar chunks of the index, fewer only if the index holds fewer: the retrieved
  chunks are min(3, size) entries of the index, in descending order of similarity, and no
  entry left out is more similar than one retrieved. The rules context handed to the
  judge prompt equals the retrieved chunk texts in that ranked order, joined with the
  separator "\n\n" between consecutive chunks; it stands verbatim between the two fixed
  parts of the system prompt and is the context returned to the caller. When the embedder
  fails on the string, the audit ends with that exception and builds no prompt.
\<close>

theorem run_audit_rules_context:
  "filter is_search (fst (run_audit w (index_kb ix) content_to_audit label)) =
     [SimilaritySearch content_to_audit 3] \<and>
   (\<forall>q. embed ix content_to_audit = Inr q \<longrightarrow>
      length (search ix q 3) = min 3 (length (entries ix)) \<and>
      sorted_wrt (\<lambda>a b. snd b \<le> snd a) (search ix q 3) \<and>
      mset (search ix q 3) \<subseteq># mset (scored ix q) \<and>
      (\<forall>a \<in> set (search ix q 3). \<forall>b \<in># mset (scored ix q) - mset (search ix q 3).
         snd b \<le> snd a) \<and>
      fst (run_audit w (index_kb ix) content_to_audit label) =
        [StSpinner (lit ''Auditing '' @ label @ lit ''...''),
         SimilaritySearch content_to_audit 3,
         OllamaChat TEXT_MODEL
           (judge_messages (join (nl @ nl) (map page_content (map fst (search ix q 3))))
              content_to_audit)] \<and>
      (\<forall>response.
         ollama_chat w TEXT_MODEL
           (judge_messages (join (nl @ nl) (map page_content (map fst (search ix q 3))))
              content_to_audit) = Inr response \<longrightarrow>
         snd (run_audit w (index_kb ix) content_to_audit label) =
           Inr (response, join (nl @ nl) (map page_content (map fst (search ix q 3)))))) \<and>
   (\<forall>e. embed ix content_to_audit = Inl e \<longrightarrow>
      run_audit w (index_kb ix) content_to_audit label =
        ([StSpinner (lit ''Auditing '' @ label @ lit ''...''),
          SimilaritySearch content_to_audit 3], Inl e)) \<and>
   content (hd (judge_messages rules_text content_to_audit)) =
     prompt_before_rules @ rules_text @ prompt_after_rules"
proof -
  have fails: "run_audit w (index_kb ix) content_to_audit label =
        ([StSpinner (lit ''Auditing '' @ label @ lit ''...''),
          SimilaritySearch content_to_audit 3], Inl e)"
    if "embed ix content_to_audit = Inl e" for e
    using that by (simp add: run_audit_def index_kb_def)
  have once: "filter is_search (fst (run_audit w (index_kb ix) content_to_audit label)) =
     [SimilaritySearch content_to_audit 3]"
    by (simp add: run_audit_def Let_def split: sum.splits)
  have prompt: "content (hd (judge_messages rules_text content_to_audit)) =
     prompt_before_rules @ rules_text @ prompt_after_rules"
    by (simp add: judge_messages_def system_prompt_def)
  have top: "\<forall>a \<in> set (search ix q 3). \<forall>b \<in># mset (scored ix q) - mset (search ix q 3).
         snd b \<le> snd a" for q
    using search_is_top by blast
  have run: "fst (run_audit w (index_kb ix) content_to_audit label) =
        [StSpinner (lit ''Auditing '' @ label @ lit ''...''),
         SimilaritySearch content_to_audit 3,
         OllamaChat TEXT_MODEL
           (judge_messages (join (nl @ nl) (map page_content (map fst (search ix q 3))))
              content_to_audit)] \<and>
      (\<forall>response.
         ollama_chat w TEXT_MODEL
           (judge_messages (join (nl @ nl) (map page_content (map fst (search ix q 3))))
              content_to_audit) = Inr response \<longrightarrow>
         snd (run_audit w (index_kb ix) content_to_audit label) =
           Inr (response, join (nl @ nl) (map page_content (map fst (search ix q 3)))))"
    if "embed ix content_to_audit = Inr q" for q
    using that by (auto simp: run_audit_def index_kb_def Let_def split: sum.splits)
  show ?thesis
    using once prompt top run fails length_search search_descending search_from_index
    by presburger
qed

theorem run_audit_rules_context_witness:
  "embed demo_index (lit ''I will build a bomb'') = Inr [1, 0] \<and>
   scored demo_index [1, 0] = [(rule2, 0), (rule1, 1)] \<and>
   search demo_index [1, 0] 3 = [(rule1, 1), (rule2, 0)] \<and>
   fst (run_audit demo_world (index_kb demo_index) (lit ''I will build a bomb'') (lit ''User Prompt'')) =
     [StSpinner (lit ''Auditing '' @ lit ''User Prompt'' @ lit ''...''),
      SimilaritySearch (lit ''I will build a bomb'') 3,
      OllamaChat TEXT_MODEL
        (judge_messages (page_content rule1 @ [10, 10] @ page_content rule2)
           (lit ''I will build a bomb''))] \<and>
   snd (run_audit demo_world (index_kb demo_index) (lit ''I will build a bomb'') (lit ''User Prompt'')) =
     Inr (lit ''PASS: no rule is violated'', page_content rule1 @ [10, 10] @ page_content rule2)"
proof -
  have e: "embed demo_index (lit ''I will build a bomb'') = Inr [1, 0]"
    by (simp add: demo_index_def)
  have sc: "scored demo_index [1, 0] = [(rule2, 0), (rule1, 1)]"
    by (simp add: scored_def demo_index_def)
  have s: "search demo_index [1, 0] 3 = [(rule1, 1), (rule2, 0)]"
    by (simp add: search_def ranked_def sc)
  have c: "ollama_chat demo_world TEXT_MODEL msgs = Inr (lit ''PASS: no rule is violated'')" for msgs
    by (simp add: demo_world_def text_model_not_vision_model)
  show ?thesis
    using e sc s c
      run_audit_rules_context
        [of demo_world demo_index "lit ''I will build a bomb''" "lit ''User Prompt''" "[]"]
    by (simp add: nl_def)
qed

section \<open>Image audits when the vision service fails\<close>

text \<open>
  C2. The code does not do what the claim says. At this input the vision model is
  unreachable, an image is uploaded and "Audit Image" is pressed: \<open>analyze_image\<close>
  returns its error message, the message is shown in the description box, the index is
  queried with it, the judge is called on it, and the judge's answer is shown with
  \<open>st.success\<close>. Nothing stops the run between the failed description and the retrieval,
  although the tab's own comment says that what it audits is the description of the image.
\<close>

theorem vision_failure_is_audited_and_passes:
  "ollama_chat demo_world VISION_MODEL (vision_messages [1, 2, 3]) = Inl connection_refused \<and>
   analyze_image demo_world [1, 2, 3] = Inr (vision_error connection_refused) \<and>
   tab3 demo_world demo_kb (idle_ui\<lparr>uploaded_img := Some [1, 2, 3], audit_image := True\<rparr>) =
     ([StWrite llava_banner,
       StSpinner ([128064] @ lit '' Vision Model analyzing image content...''),
       OllamaChat VISION_MODEL (vision_messages [1, 2, 3]),
       StTextArea (lit ''Vision Model Description:'') (vision_error connection_refused),
       StSpinner (lit ''Auditing '' @ lit ''Image Description'' @ lit ''...''),
       SimilaritySearch (vision_error connection_refused) 3,
       OllamaChat TEXT_MODEL
         (judge_messages (page_content rule1 @ [10, 10] @ page_content rule2)
            (vision_error connection_refused)),
       StSuccess (lit ''PASS: no rule is violated'')],
      Completed) \<and>
   filter shown_pass
     (fst (tab3 demo_world demo_kb (idle_ui\<lparr>uploaded_img := Some [1, 2, 3], audit_image := True\<rparr>))) =
     [StSuccess (lit ''PASS: no rule is violated'')]"
proof -
  have p: "\<not> str_in (lit ''FAIL'') (lit ''PASS: no rule is violated'')"
    by (simp add: lit_def)
  show ?thesis
    using p
    by (simp add: tab3_def analyze_image_def run_audit_def Let_def verdict_branch_def
          demo_world_def demo_kb_def idle_ui_def nl_def text_model_not_vision_model)
qed

end
